theory Spec2Isabelle
  imports Main
begin

section \<open>JavaScript values\<close>

text \<open>
  The values that flow through the skill come from \<^verbatim>\<open>JSON.parse\<close> and from the
  caller: \<^verbatim>\<open>undefined\<close> (also the value of a missing property), \<^verbatim>\<open>null\<close>,
  booleans, numbers and strings. Numbers are modelled as mathematical integers: the
  rewards and counts of the remote service are integers, on which JavaScript's
  arithmetic is exact inside the safe-integer range. Strings are lists of 8-bit
  characters.
\<close>

datatype js_value = JUndefined | JNull | JBool bool | JNum int | JStr string

text \<open>\<^verbatim>\<open>ToBoolean\<close>: what \<^verbatim>\<open>if (v)\<close>, \<^verbatim>\<open>!v\<close> and \<^verbatim>\<open>||\<close> test.\<close>

fun truthy :: "js_value \<Rightarrow> bool" where
  "truthy JUndefined = False"
| "truthy JNull = False"
| "truthy (JBool b) = b"
| "truthy (JNum n) = (n \<noteq> 0)"
| "truthy (JStr s) = (s \<noteq> [])"

text \<open>\<^verbatim>\<open>a || b\<close> and \<^verbatim>\<open>a ?? b\<close>.\<close>

definition js_or :: "js_value \<Rightarrow> js_value \<Rightarrow> js_value" where
  "js_or a b = (if truthy a then a else b)"

definition nullish :: "js_value \<Rightarrow> js_value \<Rightarrow> js_value" where
  "nullish a b = (if a = JUndefined \<or> a = JNull then b else a)"

subsection \<open>\<^verbatim>\<open>ToString\<close>, as template literals and \<^verbatim>\<open>parseInt\<close> apply it\<close>

definition digit_char :: "nat \<Rightarrow> char" where
  "digit_char d = ''0123456789'' ! d"

fun show_nat :: "nat \<Rightarrow> string" where
  "show_nat n = (if n < 10 then [digit_char n] else show_nat (n div 10) @ [digit_char (n mod 10)])"

declare show_nat.simps [simp del]

definition show_int :: "int \<Rightarrow> string" where
  "show_int i = (if i < 0 then CHR ''-'' # show_nat (nat (- i)) else show_nat (nat i))"

fun to_string :: "js_value \<Rightarrow> string" where
  "to_string JUndefined = ''undefined''"
| "to_string JNull = ''null''"
| "to_string (JBool b) = (if b then ''true'' else ''false'')"
| "to_string (JNum n) = show_int n"
| "to_string (JStr s) = s"

subsection \<open>\<^verbatim>\<open>parseInt\<close> with no radix argument\<close>

text \<open>
  \<^verbatim>\<open>parseInt(v)\<close> converts \<^verbatim>\<open>v\<close> to a string, skips leading white space, reads an
  optional sign, switches to radix 16 after a \<^verbatim>\<open>0x\<close> or \<^verbatim>\<open>0X\<close> prefix, and
  returns the number written by the longest prefix of digits of the radix; with no
  such digit the result is \<^verbatim>\<open>NaN\<close>, here \<open>None\<close>. Whatever follows the digits is
  ignored.
\<close>

definition is_white :: "char \<Rightarrow> bool" where
  "is_white c = (c \<in> set [CHR 0x09, CHR 0x0A, CHR 0x0B, CHR 0x0C, CHR 0x0D, CHR '' ''])"

definition digit_of :: "char \<Rightarrow> nat option" where
  "digit_of c =
     (let n = (of_char c :: nat)
      in if 48 \<le> n \<and> n \<le> 57 then Some (n - 48)
         else if 97 \<le> n \<and> n \<le> 122 then Some (n - 87)
         else if 65 \<le> n \<and> n \<le> 90 then Some (n - 55)
         else None)"

definition radix_digit :: "nat \<Rightarrow> char \<Rightarrow> nat option" where
  "radix_digit R c =
     (case digit_of c of None \<Rightarrow> None | Some d \<Rightarrow> if d < R then Some d else None)"

fun scan_digits :: "nat \<Rightarrow> string \<Rightarrow> nat \<Rightarrow> nat" where
  "scan_digits R [] acc = acc"
| "scan_digits R (c # cs) acc =
     (case radix_digit R c of None \<Rightarrow> acc | Some d \<Rightarrow> scan_digits R cs (acc * R + d))"

definition strip_sign :: "string \<Rightarrow> int \<times> string" where
  "strip_sign s =
     (case s of
        [] \<Rightarrow> (1, [])
      | c # cs \<Rightarrow> if c = CHR ''-'' then (- 1, cs) else if c = CHR ''+'' then (1, cs) else (1, s))"

definition strip_prefix :: "string \<Rightarrow> nat \<times> string" where
  "strip_prefix s =
     (case s of
        a # b # cs \<Rightarrow>
          if a = CHR ''0'' \<and> (b = CHR ''x'' \<or> b = CHR ''X'') then (16, cs) else (10, s)
      | _ \<Rightarrow> (10, s))"

definition parse_int_string :: "string \<Rightarrow> int option" where
  "parse_int_string s =
     (let (sign, s2) = strip_sign (dropWhile is_white s);
          (R, s3) = strip_prefix s2
      in case s3 of
           [] \<Rightarrow> None
         | c # _ \<Rightarrow>
             if radix_digit R c = None then None
             else Some (sign * int (scan_digits R s3 0)))"

definition parseInt :: "js_value \<Rightarrow> int option" where
  "parseInt v = parse_int_string (to_string v)"

text \<open>\<^verbatim>\<open>parseInt(v) || 0\<close>: \<^verbatim>\<open>NaN\<close> and \<^verbatim>\<open>0\<close> are both falsy.\<close>

definition parseInt_or_zero :: "js_value \<Rightarrow> int" where
  "parseInt_or_zero v = (case parseInt v of None \<Rightarrow> 0 | Some n \<Rightarrow> if n \<noteq> 0 then n else 0)"

section \<open>The sprint report\<close>

text \<open>A task record as the remote service returns it; a missing field is \<open>JUndefined\<close>.\<close>

record task =
  task_id :: js_value
  description :: js_value
  assignee :: js_value
  stage :: js_value
  reward :: js_value
  task_notes :: js_value

text \<open>
  What \<^verbatim>\<open>getTasksForScrum\<close> resolved to: an envelope object with its \<^verbatim>\<open>total\<close>
  and \<^verbatim>\<open>items\<close> properties (\<open>None\<close> when \<^verbatim>\<open>items\<close> is missing), a bare array, or
  no body at all (\<^verbatim>\<open>null\<close> or \<^verbatim>\<open>undefined\<close>), on which reading a property throws.
\<close>

datatype tasks_response =
    Envelope js_value "task list option"
  | BareArray "task list"
  | NoBody

datatype error = ConfigurationError string | UpstreamError string | TypeError string

fun message :: "error \<Rightarrow> string" where
  "message (ConfigurationError m) = m"
| "message (UpstreamError m) = m"
| "message (TypeError m) = m"

record rewards =
  total :: int
  completed :: int
  pending :: int

text \<open>
  The \<^verbatim>\<open>report\<close> object. \<open>assignees\<close> holds the \<^verbatim>\<open>Set\<close> during the loop, as the
  list of its members in insertion order, and the filtered array afterwards;
  \<open>rewards\<close> is absent until the report is finished.
\<close>

record 'b report =
  scrumBoard :: 'b
  totalTasks :: js_value
  todo :: "task list"
  doing :: "task list"
  done_tasks :: "task list"
  assignees :: "js_value list"
  totalReward :: int
  completedReward :: int
  rewards :: "rewards option"

text \<open>\<^verbatim>\<open>Set.prototype.add\<close>: a member already present keeps its place.\<close>

definition set_add :: "'a list \<Rightarrow> 'a \<Rightarrow> 'a list" where
  "set_add xs x = (if x \<in> set xs then xs else xs @ [x])"

text \<open>\<^verbatim>\<open>tasks.total || tasks.items?.length || 0\<close>\<close>

definition initial_total :: "tasks_response \<Rightarrow> js_value" where
  "initial_total tasks =
     (case tasks of
        Envelope tot its \<Rightarrow>
          js_or (js_or tot (case its of None \<Rightarrow> JUndefined | Some ts \<Rightarrow> JNum (int (length ts))))
                (JNum 0)
      | BareArray ts \<Rightarrow> JNum 0
      | NoBody \<Rightarrow> JNum 0)"

definition new_report :: "'b \<Rightarrow> tasks_response \<Rightarrow> 'b report" where
  "new_report board tasks =
     \<lparr> scrumBoard = board, totalTasks = initial_total tasks,
       todo = [], doing = [], done_tasks = [], assignees = [],
       totalReward = 0, completedReward = 0, rewards = None \<rparr>"

definition track_rewards :: "task \<Rightarrow> 'b report \<Rightarrow> 'b report" where
  "track_rewards t r =
     (if truthy (reward t) then
        (let r1 = r\<lparr>totalReward := totalReward r + parseInt_or_zero (reward t)\<rparr>
         in if stage t = JStr ''done''
            then r1\<lparr>completedReward := completedReward r1 + parseInt_or_zero (reward t)\<rparr>
            else r1)
      else r)"

definition route :: "task \<Rightarrow> 'b report \<Rightarrow> 'b report" where
  "route t r =
     (if stage t = JStr ''todo'' then r\<lparr>todo := todo r @ [t]\<rparr>
      else if stage t = JStr ''doing'' then r\<lparr>doing := doing r @ [t]\<rparr>
      else if stage t = JStr ''done'' then r\<lparr>done_tasks := done_tasks r @ [t]\<rparr>
      else r)"

definition processTask :: "'b report \<Rightarrow> task \<Rightarrow> 'b report" where
  "processTask r t =
     route t (track_rewards t (r\<lparr>assignees := set_add (assignees r) (assignee t)\<rparr>))"

text \<open>The two \<^verbatim>\<open>for ... of\<close> loops.\<close>

fun process_all :: "'b report \<Rightarrow> task list \<Rightarrow> 'b report" where
  "process_all r [] = r"
| "process_all r (t # ts) = process_all (processTask r t) ts"

definition finish :: "'b report \<Rightarrow> 'b report" where
  "finish r =
     r\<lparr> assignees := filter truthy (assignees r),
        rewards := Some \<lparr> total = totalReward r, completed = completedReward r,
                          pending = totalReward r - completedReward r \<rparr> \<rparr>"

text \<open>
  The body of \<^verbatim>\<open>generateSprintReport\<close> once the board and the task listing have
  been fetched.
\<close>

definition sprintReport :: "'b \<Rightarrow> tasks_response \<Rightarrow> error + 'b report" where
  "sprintReport board tasks =
     (case tasks of
        NoBody \<Rightarrow> Inl (TypeError ''Cannot read properties of undefined'')
      | Envelope tot (Some ts) \<Rightarrow> Inr (finish (process_all (new_report board tasks) ts))
      | Envelope tot None \<Rightarrow> Inr (finish (new_report board tasks))
      | BareArray ts \<Rightarrow>
          Inr (finish ((process_all (new_report board tasks) ts)
                          \<lparr>totalTasks := JNum (int (length ts))\<rparr>)))"

text \<open>The task sequence a response carries for the loops: the item list of an envelope, the
  array itself, and nothing otherwise.\<close>

definition tasks_of :: "tasks_response \<Rightarrow> task list" where
  "tasks_of tasks =
     (case tasks of Envelope tot (Some ts) \<Rightarrow> ts | BareArray ts \<Rightarrow> ts | _ \<Rightarrow> [])"



text \<open>The members of a list in order of first occurrence.\<close>

primrec first_seen :: "'a list \<Rightarrow> 'a list" where
  "first_seen [] = []"
| "first_seen (x # xs) = x # filter (\<lambda>y. y \<noteq> x) (first_seen xs)"

fun add_all :: "'a list \<Rightarrow> 'a list \<Rightarrow> 'a list" where
  "add_all acc [] = acc"
| "add_all acc (x # xs) = add_all (set_add acc x) xs"



section \<open>The API client\<close>

text \<open>The configuration object read by \<^verbatim>\<open>JSON.parse\<close>; a missing key is \<open>JUndefined\<close>.\<close>

record config =
  lnbits_url :: js_value
  access_token :: js_value
  admin_key :: js_value
  user_id :: js_value
  usr :: js_value
  wallet_id :: js_value

type_synonym js_object = "string \<rightharpoonup> js_value"

record client =
  client_config :: config
  baseURL :: js_value
  accessToken :: js_value
  userId :: js_value
  walletId :: js_value
  headers :: "string \<rightharpoonup> string"
  api_baseURL :: string

text \<open>The constructor of \<^verbatim>\<open>LnbitsScrumClient\<close>; \<open>headers\<close> and \<open>api_baseURL\<close> are what
  \<^verbatim>\<open>axios.create\<close> is given, and so what every request of the instance carries.\<close>

definition LnbitsScrumClient :: "config \<Rightarrow> client" where
  "LnbitsScrumClient cfg =
     (let base = js_or (lnbits_url cfg) (JStr ''https://demo.lnbits.com'');
          token = access_token cfg;
          hdrs = [''Content-Type'' \<mapsto> ''application/json''];
          hdrs' = (if truthy token
                   then hdrs(''Authorization'' \<mapsto> ''Bearer '' @ to_string token)
                   else hdrs)
      in \<lparr> client_config = cfg, baseURL = base, accessToken = token,
           userId = js_or (user_id cfg) (usr cfg), walletId = wallet_id cfg,
           headers = hdrs', api_baseURL = to_string base @ ''/scrum/api/v1'' \<rparr>)"

definition buildParams :: "client \<Rightarrow> js_object \<Rightarrow> js_object" where
  "buildParams c additionalParams =
     (if truthy (userId c) then additionalParams(''usr'' \<mapsto> userId c) else additionalParams)"

datatype http_method = GET | POST | PUT | DELETE

record request =
  http_method :: http_method
  req_url :: string
  payload :: "js_object option"
  params :: js_object
  req_headers :: "string \<rightharpoonup> string"

text \<open>A default parameter value applies when the argument is \<^verbatim>\<open>undefined\<close>.\<close>

definition default_arg :: "js_value \<Rightarrow> js_value \<Rightarrow> js_value" where
  "default_arg v d = (if v = JUndefined then d else v)"

record board_options =
  publicAssigning :: js_value
  publicTasks :: js_value
  publicDeleteTasks :: js_value

definition createScrumBoard_payload ::
  "client \<Rightarrow> js_value \<Rightarrow> js_value \<Rightarrow> board_options \<Rightarrow> js_object" where
  "createScrumBoard_payload c name descr options =
     [''name'' \<mapsto> name,
      ''description'' \<mapsto> descr,
      ''public_assigning'' \<mapsto> nullish (publicAssigning options) (JBool False),
      ''public_tasks'' \<mapsto> nullish (publicTasks options) (JBool False),
      ''public_delete_tasks'' \<mapsto> nullish (publicDeleteTasks options) (JBool False),
      ''wallet'' \<mapsto> js_or (walletId c) JUndefined]"

text \<open>The payload \<^verbatim>\<open>createTask\<close> builds: \<^verbatim>\<open>reward\<close> is set unless the argument is
  \<^verbatim>\<open>undefined\<close>, \<^verbatim>\<open>notes\<close> when it is truthy.\<close>

definition createTask_payload ::
  "js_value \<Rightarrow> js_value \<Rightarrow> js_value \<Rightarrow> js_value \<Rightarrow> js_value \<Rightarrow> js_object" where
  "createTask_payload scrumId taskDescription assignee_arg reward_arg notes_arg =
     (let assignee0 = default_arg assignee_arg (JStr []);
          notes0 = default_arg notes_arg (JStr []);
          p = [''task'' \<mapsto> taskDescription,
               ''scrum_id'' \<mapsto> scrumId,
               ''assignee'' \<mapsto> js_or assignee0 (JStr []),
               ''stage'' \<mapsto> JStr ''todo''];
          p1 = (if reward_arg \<noteq> JUndefined then p(''reward'' \<mapsto> reward_arg) else p)
      in if truthy notes0 then p1(''notes'' \<mapsto> notes0) else p1)"

text \<open>The operations of the client, with their arguments.\<close>

datatype operation =
    CreateScrumBoard js_value js_value board_options
  | GetScrumBoard js_value
  | ListScrumBoards
  | DeleteScrumBoard js_value
  | CreateTask js_value js_value js_value js_value js_value
  | UpdateTask js_value js_object
  | GetTask js_value
  | GetTasksForScrum js_value
  | DeleteTask js_value

definition api_request ::
  "client \<Rightarrow> http_method \<Rightarrow> string \<Rightarrow> js_object option \<Rightarrow> js_object \<Rightarrow> request" where
  "api_request c m path body additionalParams =
     \<lparr> http_method = m, req_url = api_baseURL c @ path, payload = body,
       params = buildParams c additionalParams, req_headers = headers c \<rparr>"

text \<open>The request each method of the client issues; \<^verbatim>\<open>limit\<close> and \<^verbatim>\<open>offset\<close> take
  their defaults 100 and 0, as the skill never passes them.\<close>

fun request_of :: "client \<Rightarrow> operation \<Rightarrow> request" where
  "request_of c (CreateScrumBoard name descr options) =
     api_request c POST ''/scrum'' (Some (createScrumBoard_payload c name descr options)) Map.empty"
| "request_of c (GetScrumBoard scrumId) =
     api_request c GET (''/scrum/'' @ to_string scrumId) None Map.empty"
| "request_of c ListScrumBoards =
     api_request c GET ''/scrum/paginated'' None
       [''limit'' \<mapsto> JNum 100, ''offset'' \<mapsto> JNum 0]"
| "request_of c (DeleteScrumBoard scrumId) =
     api_request c DELETE (''/scrum/'' @ to_string scrumId) None Map.empty"
| "request_of c (CreateTask scrumId taskDescription assignee_arg reward_arg notes_arg) =
     api_request c POST ''/tasks''
       (Some (createTask_payload scrumId taskDescription assignee_arg reward_arg notes_arg))
       Map.empty"
| "request_of c (UpdateTask taskId updates) =
     api_request c PUT (''/tasks/'' @ to_string taskId) (Some updates) Map.empty"
| "request_of c (GetTask taskId) =
     api_request c GET (''/tasks/'' @ to_string taskId) None Map.empty"
| "request_of c (GetTasksForScrum scrumId) =
     api_request c GET ''/tasks/paginated'' None
       [''scrum_id'' \<mapsto> scrumId, ''limit'' \<mapsto> JNum 100, ''offset'' \<mapsto> JNum 0]"
| "request_of c (DeleteTask taskId) =
     api_request c DELETE (''/tasks/'' @ to_string taskId) None Map.empty"

fun failure_prefix :: "operation \<Rightarrow> string" where
  "failure_prefix (CreateScrumBoard name descr options) = ''Failed to create scrum board: ''"
| "failure_prefix (GetScrumBoard scrumId) = ''Failed to get scrum board: ''"
| "failure_prefix ListScrumBoards = ''Failed to list scrum boards: ''"
| "failure_prefix (DeleteScrumBoard scrumId) = ''Failed to delete scrum board: ''"
| "failure_prefix (CreateTask scrumId taskDescription assignee_arg reward_arg notes_arg) =
     ''Failed to create task: ''"
| "failure_prefix (UpdateTask taskId updates) = ''Failed to update task: ''"
| "failure_prefix (GetTask taskId) = ''Failed to get task: ''"
| "failure_prefix (GetTasksForScrum scrumId) = ''Failed to get tasks for scrum: ''"
| "failure_prefix (DeleteTask taskId) = ''Failed to delete task: ''"

subsection \<open>The network\<close>

text \<open>
  What a rejected request exposes to the \<^verbatim>\<open>catch\<close> blocks:
  \<^verbatim>\<open>error.response?.data?.detail\<close> and \<^verbatim>\<open>error.message\<close>. The remote service is a
  function from its state and a request to a rejection or a response body, and the
  next state; \<open>sent\<close> records the requests issued so far.
\<close>

record net_error =
  detail :: js_value
  err_message :: string

type_synonym ('w, 'd) network = "'w \<Rightarrow> request \<Rightarrow> (net_error + 'd) \<times> 'w"

record 'w env =
  world :: 'w
  sent :: "request list"

definition send :: "('w, 'd) network \<Rightarrow> request \<Rightarrow> 'w env \<Rightarrow> (net_error + 'd) \<times> 'w env" where
  "send net req e =
     (case net (world e) req of (res, w') \<Rightarrow> (res, \<lparr> world = w', sent = sent e @ [req] \<rparr>))"

text \<open>A method of the client: the request, then \<^verbatim>\<open>response.data\<close> or the rethrown error.\<close>

definition api_call ::
  "('w, 'd) network \<Rightarrow> client \<Rightarrow> operation \<Rightarrow> 'w env \<Rightarrow> (error + 'd) \<times> 'w env" where
  "api_call net c opn e =
     (case send net (request_of c opn) e of
        (Inl err, e') \<Rightarrow>
          (Inl (UpstreamError
                 (failure_prefix opn @ to_string (js_or (detail err) (JStr (err_message err))))),
           e')
      | (Inr d, e') \<Rightarrow> (Inr d, e'))"

section \<open>The skill\<close>

record skill =
  client :: "client option"
  config :: config

datatype config_file = Missing | Unparsable | Parsed config

definition empty_config :: config where
  "empty_config =
     \<lparr> lnbits_url = JUndefined, access_token = JUndefined, admin_key = JUndefined,
       user_id = JUndefined, usr = JUndefined, wallet_id = JUndefined \<rparr>"

definition loadConfig :: "config_file \<Rightarrow> config" where
  "loadConfig f = (case f of Parsed cfg \<Rightarrow> cfg | _ \<Rightarrow> empty_config)"

definition LnbitsScrumSkill :: "config_file \<Rightarrow> skill" where
  "LnbitsScrumSkill f = \<lparr> client = None, config = loadConfig f \<rparr>"

definition auth_error_message :: string where
  "auth_error_message =
     ''LNbits Scrum skill requires authentication. '' @
     ''Provide access_token (Bearer) OR admin_key (X-Api-Key) OR user_id/usr (query param). '' @
     ''See README.md for configuration details.''"

definition initialize :: "skill \<Rightarrow> error + skill" where
  "initialize sk =
     (if \<not> truthy (access_token (config sk)) \<and> \<not> truthy (admin_key (config sk)) \<and>
         \<not> truthy (user_id (config sk)) \<and> \<not> truthy (usr (config sk))
      then Inl (ConfigurationError auth_error_message)
      else Inr (sk\<lparr>client := Some (LnbitsScrumClient (config sk))\<rparr>))"

text \<open>\<^verbatim>\<open>if (!this.client) this.initialize();\<close> followed by the use of \<^verbatim>\<open>this.client\<close>.\<close>

definition ensure_client :: "skill \<Rightarrow> error + client \<times> skill" where
  "ensure_client sk =
     (case client sk of
        Some c \<Rightarrow> Inr (c, sk)
      | None \<Rightarrow>
          (case initialize sk of
             Inl err \<Rightarrow> Inl err
           | Inr sk' \<Rightarrow>
               (case client sk' of
                  Some c \<Rightarrow> Inr (c, sk')
                | None \<Rightarrow> Inl (TypeError ''Cannot read properties of null''))))"

text \<open>A method of the skill that forwards to the client's method of the same name.\<close>

definition skill_call ::
  "('w, 'd) network \<Rightarrow> skill \<Rightarrow> operation \<Rightarrow> 'w env \<Rightarrow> (error + 'd) \<times> skill \<times> 'w env" where
  "skill_call net sk opn e =
     (case ensure_client sk of
        Inl err \<Rightarrow> (Inl err, sk, e)
      | Inr (c, sk') \<Rightarrow> (case api_call net c opn e of (r, e') \<Rightarrow> (r, sk', e')))"

definition createTask ::
  "('w, 'd) network \<Rightarrow> skill \<Rightarrow> js_value \<Rightarrow> js_value \<Rightarrow> js_value \<Rightarrow> js_value \<Rightarrow> js_value \<Rightarrow>
   'w env \<Rightarrow> (error + 'd) \<times> skill \<times> 'w env" where
  "createTask net sk scrumId taskDescription assignee_arg reward_arg notes_arg e =
     skill_call net sk
       (CreateTask scrumId taskDescription (default_arg assignee_arg (JStr []))
          (default_arg reward_arg JUndefined) (default_arg notes_arg (JStr []))) e"

subsection \<open>Importing GitHub issues\<close>

record issue =
  title :: js_value
  repository :: js_value
  number :: js_value
  issue_assignee :: js_value
  issue_url :: js_value

text \<open>An entry of the result: \<^verbatim>\<open>{success: true, task, issue}\<close> or
  \<^verbatim>\<open>{success: false, error, issue}\<close>.\<close>

datatype 'd import_result = Imported 'd issue | NotImported string issue

fun success :: "'d import_result \<Rightarrow> bool" where
  "success (Imported d i) = True"
| "success (NotImported m i) = False"

fun result_issue :: "'d import_result \<Rightarrow> issue" where
  "result_issue (Imported d i) = i"
| "result_issue (NotImported m i) = i"

definition issue_description :: "issue \<Rightarrow> js_value" where
  "issue_description i =
     JStr (to_string (title i) @ '' ('' @ to_string (repository i) @ ''/'' @
           to_string (number i) @ '')'')"

text \<open>One turn of the loop: the \<^verbatim>\<open>try\<close> block and its \<^verbatim>\<open>catch\<close>.\<close>

definition import_issue ::
  "('w, 'd) network \<Rightarrow> js_value \<Rightarrow> js_value \<Rightarrow> issue \<Rightarrow> skill \<Rightarrow> 'w env \<Rightarrow>
   'd import_result \<times> skill \<times> 'w env" where
  "import_issue net scrumId defaultReward i sk e =
     (case createTask net sk scrumId (issue_description i)
             (js_or (issue_assignee i) (JStr [])) defaultReward
             (JStr (''Imported from GitHub: '' @ to_string (issue_url i))) e of
        (Inr t, sk', e') \<Rightarrow> (Imported t i, sk', e')
      | (Inl err, sk', e') \<Rightarrow> (NotImported (message err) i, sk', e'))"

fun import_loop ::
  "('w, 'd) network \<Rightarrow> js_value \<Rightarrow> js_value \<Rightarrow> issue list \<Rightarrow> 'd import_result list \<Rightarrow> skill \<Rightarrow>
   'w env \<Rightarrow> 'd import_result list \<times> skill \<times> 'w env" where
  "import_loop net scrumId defaultReward [] results sk e = (results, sk, e)"
| "import_loop net scrumId defaultReward (i # rest) results sk e =
     (case import_issue net scrumId defaultReward i sk e of
        (r, sk', e') \<Rightarrow> import_loop net scrumId defaultReward rest (results @ [r]) sk' e')"

definition addGithubIssuesToSprint ::
  "('w, 'd) network \<Rightarrow> skill \<Rightarrow> issue list \<Rightarrow> js_value \<Rightarrow> js_value \<Rightarrow> 'w env \<Rightarrow>
   'd import_result list \<times> skill \<times> 'w env" where
  "addGithubIssuesToSprint net sk githubIssues scrumId defaultReward e =
     import_loop net scrumId (default_arg defaultReward JUndefined) githubIssues [] sk e"

subsection \<open>Generating the report\<close>

text \<open>The two fetches, then the aggregation; \<open>shape\<close> reads the body of the task listing
  as an envelope, an array or nothing.\<close>

definition generateSprintReport ::
  "('w, 'd) network \<Rightarrow> ('d \<Rightarrow> tasks_response) \<Rightarrow> skill \<Rightarrow> js_value \<Rightarrow> 'w env \<Rightarrow>
   (error + 'd report) \<times> skill \<times> 'w env" where
  "generateSprintReport net shape sk scrumId e =
     (case skill_call net sk (GetScrumBoard scrumId) e of
        (Inl err, sk1, e1) \<Rightarrow> (Inl err, sk1, e1)
      | (Inr board, sk1, e1) \<Rightarrow>
          (case skill_call net sk1 (GetTasksForScrum scrumId) e1 of
             (Inl err, sk2, e2) \<Rightarrow> (Inl err, sk2, e2)
           | (Inr tasks, sk2, e2) \<Rightarrow> (sprintReport board (shape tasks), sk2, e2)))"

section \<open>Auxiliary definitions for the statements\<close>

text \<open>The count the finished report carries: the array's length for a bare array, the
  initial value otherwise.\<close>

definition final_total :: "tasks_response \<Rightarrow> js_value" where
  "final_total tasks =
     (case tasks of BareArray ts \<Rightarrow> JNum (int (length ts)) | _ \<Rightarrow> initial_total tasks)"


definition payload_field :: "request \<Rightarrow> string \<Rightarrow> js_value option" where
  "payload_field q k = (case payload q of None \<Rightarrow> None | Some p \<Rightarrow> p k)"

definition start :: "'w \<Rightarrow> 'w env" where
  "start w = \<lparr> world = w, sent = [] \<rparr>"

subsection \<open>Example data\<close>

definition mk_task :: "js_value \<Rightarrow> js_value \<Rightarrow> js_value \<Rightarrow> js_value \<Rightarrow> task" where
  "mk_task i a s r =
     \<lparr> task_id = i, description = JUndefined, assignee = a, stage = s, reward = r,
       task_notes = JUndefined \<rparr>"

text \<open>The scenario of the specification: an unrewarded task to do, a finished task worth
  5000 and a free task in progress.\<close>

definition scenario_tasks :: "task list" where
  "scenario_tasks =
     [mk_task (JNum 1) (JStr ''alice'') (JStr ''todo'') JUndefined,
      mk_task (JNum 2) (JStr ''bob'') (JStr ''done'') (JNum 5000),
      mk_task (JNum 3) (JStr ''alice'') (JStr ''doing'') (JNum 0)]"

text \<open>The same with a fourth task: no assignee, an unknown stage, a reward sent as a string.\<close>

definition four_tasks :: "task list" where
  "four_tasks =
     [mk_task (JNum 1) (JStr ''alice'') (JStr ''todo'') JUndefined,
      mk_task (JNum 2) (JStr ''bob'') (JStr ''done'') (JNum 5000),
      mk_task (JNum 3) (JStr ''alice'') (JStr ''doing'') (JNum 0),
      mk_task (JNum 4) (JStr []) (JStr ''blocked'') (JStr ''250'')]"

definition token_config :: config where
  "token_config = empty_config\<lparr>access_token := JStr ''tok''\<rparr>"

definition user_config :: config where
  "user_config = empty_config\<lparr>usr := JStr ''u1''\<rparr>"

definition both_config :: config where
  "both_config = empty_config\<lparr>access_token := JStr ''tok'', user_id := JStr ''u1''\<rparr>"

definition admin_key_config :: config where
  "admin_key_config = empty_config\<lparr>admin_key := JStr ''key''\<rparr>"

text \<open>A service that accepts every request, and one whose second request is rejected.\<close>

definition always_ok :: "(unit, js_value) network" where
  "always_ok w req = (Inr JNull, w)"

definition second_fails :: "(nat, js_value) network" where
  "second_fails w req =
     (if w = 1 then Inl \<lparr> detail = JStr ''boom'', err_message = ''Request failed'' \<rparr>
      else Inr (JNum (int w)), Suc w)"

definition example_issue :: "int \<Rightarrow> issue" where
  "example_issue n =
     \<lparr> title = JStr ''Fix crash'', repository = JStr ''acme/app'', number = JNum n,
       issue_assignee = JUndefined, issue_url = JStr ''https://example.org/i'' \<rparr>"

definition three_issues :: "issue list" where
  "three_issues = [example_issue 1, example_issue 2, example_issue 3]"

section \<open>Reading back a printed integer\<close>

lemma radix_digit_digit_char: "d < 10 \<Longrightarrow> radix_digit 10 (digit_char d) = Some d"
proof -
  assume "d < 10"
  then have "d \<in> {0, 1, 2, 3, 4, 5, 6, 7, 8, 9}" by auto
  then show ?thesis
    by (auto simp: digit_char_def radix_digit_def digit_of_def)
qed

lemma radix_digit_white: "is_white c \<Longrightarrow> radix_digit R c = None"
  by (auto simp: is_white_def radix_digit_def digit_of_def)

lemma radix_digit_special:
  "radix_digit 10 CHR ''-'' = None" "radix_digit 10 CHR ''+'' = None"
  "radix_digit 10 CHR ''x'' = None" "radix_digit 10 CHR ''X'' = None"
  by (simp_all add: radix_digit_def digit_of_def)

lemma show_nat_digits: "c \<in> set (show_nat n) \<Longrightarrow> radix_digit 10 c \<noteq> None"
proof (induction n rule: show_nat.induct)
  case (1 n)
  show ?case
  proof (cases "n < 10")
    case True
    with "1.prems" show ?thesis
      by (simp add: show_nat.simps [of n] radix_digit_digit_char)
  next
    case False
    with "1.prems" "1.IH" show ?thesis
      by (auto simp: show_nat.simps [of n] radix_digit_digit_char)
  qed
qed

lemma show_nat_nonempty: "show_nat n \<noteq> []"
  by (subst show_nat.simps) simp

lemma scan_show_nat:
  "scan_digits 10 (show_nat n @ rest) acc = scan_digits 10 rest (acc * 10 ^ length (show_nat n) + n)"
proof (induction n arbitrary: rest acc rule: show_nat.induct)
  case (1 n)
  show ?case
  proof (cases "n < 10")
    case True
    then show ?thesis
      by (simp add: show_nat.simps [of n] radix_digit_digit_char)
  next
    case False
    have "scan_digits 10 (show_nat n @ rest) acc =
          scan_digits 10 (show_nat (n div 10) @ (digit_char (n mod 10) # rest)) acc"
      using False by (simp add: show_nat.simps [of n])
    also have "\<dots> = scan_digits 10 (digit_char (n mod 10) # rest)
                       (acc * 10 ^ length (show_nat (n div 10)) + n div 10)"
      using "1.IH" [OF False] by simp
    also have "\<dots> = scan_digits 10 rest
                       ((acc * 10 ^ length (show_nat (n div 10)) + n div 10) * 10 + n mod 10)"
      by (simp add: radix_digit_digit_char)
    also have "(acc * 10 ^ length (show_nat (n div 10)) + n div 10) * 10 + n mod 10 =
               acc * 10 ^ length (show_nat n) + n"
      using False by (simp add: show_nat.simps [of n] algebra_simps)
    finally show ?thesis .
  qed
qed

lemma scan_show_nat_0: "scan_digits 10 (show_nat n) 0 = n"
  using scan_show_nat [of n "[]" 0] by simp

lemma parse_digits_only:
  assumes "s \<noteq> []" and "\<And>c. c \<in> set s \<Longrightarrow> radix_digit 10 c \<noteq> None"
  shows "parse_int_string s = Some (int (scan_digits 10 s 0))"
      and "parse_int_string (CHR ''-'' # s) = Some (- int (scan_digits 10 s 0))"
proof -
  obtain c cs where s: "s = c # cs" using assms(1) by (cases s) auto
  have c: "radix_digit 10 c \<noteq> None" using assms(2) s by simp
  have nw: "\<not> is_white c" using c radix_digit_white [of c 10] by auto
  have ns: "c \<noteq> CHR ''-''" "c \<noteq> CHR ''+''" using c radix_digit_special by auto
  have pre: "strip_prefix s = (10, s)"
  proof (cases cs)
    case Nil
    then show ?thesis by (simp add: s strip_prefix_def)
  next
    case (Cons b bs)
    then have "radix_digit 10 b \<noteq> None" using assms(2) s by simp
    then have "b \<noteq> CHR ''x''" "b \<noteq> CHR ''X''" using radix_digit_special by auto
    then show ?thesis by (simp add: s Cons strip_prefix_def)
  qed
  show "parse_int_string s = Some (int (scan_digits 10 s 0))"
    using nw ns c pre by (simp add: parse_int_string_def strip_sign_def s)
  have "\<not> is_white CHR ''-''" by (simp add: is_white_def)
  then show "parse_int_string (CHR ''-'' # s) = Some (- int (scan_digits 10 s 0))"
    using c pre by (simp add: parse_int_string_def strip_sign_def s)
qed

lemma parse_show_int: "parse_int_string (show_int i) = Some i"
proof (cases "i < 0")
  case True
  then show ?thesis
    using parse_digits_only(2) [of "show_nat (nat (- i))"] show_nat_nonempty show_nat_digits
    by (simp add: show_int_def scan_show_nat_0)
next
  case False
  then show ?thesis
    using parse_digits_only(1) [of "show_nat (nat i)"] show_nat_nonempty show_nat_digits
    by (simp add: show_int_def scan_show_nat_0)
qed

lemma parseInt_JNum: "parseInt (JNum n) = Some n"
  by (simp add: parseInt_def parse_show_int)

section \<open>The loop over the tasks, field by field\<close>

lemma add_all_first_seen: "add_all acc xs = acc @ filter (\<lambda>y. y \<notin> set acc) (first_seen xs)"
proof (induction xs arbitrary: acc)
  case Nil
  then show ?case by simp
next
  case (Cons x xs)
  show ?case
  proof (cases "x \<in> set acc")
    case True
    have "filter (\<lambda>y. y \<notin> set acc) (filter (\<lambda>y. y \<noteq> x) (first_seen xs)) =
          filter (\<lambda>y. y \<notin> set acc) (first_seen xs)"
      unfolding filter_filter using True by (intro filter_cong) auto
    with True show ?thesis by (simp add: Cons.IH set_add_def)
  next
    case False
    have "filter (\<lambda>y. y \<notin> set (acc @ [x])) (first_seen xs) =
          filter (\<lambda>y. y \<notin> set acc) (filter (\<lambda>y. y \<noteq> x) (first_seen xs))"
      unfolding filter_filter by (intro filter_cong) auto
    with False show ?thesis by (simp add: Cons.IH set_add_def)
  qed
qed

lemma filter_first_seen: "filter P (first_seen xs) = first_seen (filter P xs)"
proof (induction xs)
  case Nil
  then show ?case by simp
next
  case (Cons x xs)
  show ?case
  proof (cases "P x")
    case True
    have "filter P (filter (\<lambda>y. y \<noteq> x) (first_seen xs)) =
          filter (\<lambda>y. y \<noteq> x) (filter P (first_seen xs))"
      unfolding filter_filter by (intro filter_cong) auto
    with True show ?thesis by (simp add: Cons.IH)
  next
    case False
    have "filter P (filter (\<lambda>y. y \<noteq> x) (first_seen xs)) = filter P (first_seen xs)"
      unfolding filter_filter using False by (intro filter_cong) auto
    with False show ?thesis by (simp add: Cons.IH)
  qed
qed

lemma set_first_seen: "set (first_seen xs) = set xs"
  by (induction xs) auto

lemma distinct_first_seen: "distinct (first_seen xs)"
  by (induction xs) (auto simp: set_first_seen)

lemma pa_assignees: "assignees (process_all r ts) = add_all (assignees r) (map assignee ts)"
  by (induction ts arbitrary: r) (simp_all add: processTask_def route_def track_rewards_def Let_def)



lemma pa_todo: "todo (process_all r ts) = todo r @ filter (\<lambda>t. stage t = JStr ''todo'') ts"
  by (induction ts arbitrary: r) (simp_all add: processTask_def route_def track_rewards_def Let_def)

lemma pa_doing: "doing (process_all r ts) = doing r @ filter (\<lambda>t. stage t = JStr ''doing'') ts"
  by (induction ts arbitrary: r) (simp_all add: processTask_def route_def track_rewards_def Let_def)

lemma pa_done: "done_tasks (process_all r ts) = done_tasks r @ filter (\<lambda>t. stage t = JStr ''done'') ts"
  by (induction ts arbitrary: r) (simp_all add: processTask_def route_def track_rewards_def Let_def)

lemma pa_totalTasks: "totalTasks (process_all r ts) = totalTasks r"
  by (induction ts arbitrary: r) (simp_all add: processTask_def route_def track_rewards_def Let_def)

lemma pa_scrumBoard: "scrumBoard (process_all r ts) = scrumBoard r"
  by (induction ts arbitrary: r) (simp_all add: processTask_def route_def track_rewards_def Let_def)

lemma pa_rewards: "rewards (process_all r ts) = rewards r"
  by (induction ts arbitrary: r) (simp_all add: processTask_def route_def track_rewards_def Let_def)


section \<open>The finished report\<close>

lemma sprintReport_returns:
  "tasks \<noteq> NoBody \<Longrightarrow>
     sprintReport board tasks =
       Inr (finish ((process_all (new_report board tasks) (tasks_of tasks))
                      \<lparr>totalTasks := final_total tasks\<rparr>))"
  by (auto simp: sprintReport_def tasks_of_def new_report_def finish_def pa_totalTasks final_total_def
      split: tasks_response.splits option.splits)




lemma processTask_totalTasks_update:
  "processTask (r\<lparr>totalTasks := v\<rparr>) t = (processTask r t)\<lparr>totalTasks := v\<rparr>"
  by (simp add: processTask_def route_def track_rewards_def Let_def)

lemma process_all_totalTasks_update:
  "process_all (r\<lparr>totalTasks := v\<rparr>) ts = (process_all r ts)\<lparr>totalTasks := v\<rparr>"
  by (induction ts arbitrary: r) (simp_all only: process_all.simps processTask_totalTasks_update)

lemma new_report_totalTasks:
  "new_report board tasks = (new_report board tasks')\<lparr>totalTasks := initial_total tasks\<rparr>"
  by (simp add: new_report_def)

lemma envelope_total:
  "initial_total (Envelope tot (Some ts)) = (if truthy tot then tot else JNum (int (length ts)))"
  by (simp add: initial_total_def js_or_def)

text \<open>The scenario of the specification, evaluated.\<close>

lemma scenario_report:
  "sprintReport () (BareArray scenario_tasks) =
     Inr \<lparr> scrumBoard = (), totalTasks = JNum 3,
           todo = [mk_task (JNum 1) (JStr ''alice'') (JStr ''todo'') JUndefined],
           doing = [mk_task (JNum 3) (JStr ''alice'') (JStr ''doing'') (JNum 0)],
           done_tasks = [mk_task (JNum 2) (JStr ''bob'') (JStr ''done'') (JNum 5000)],
           assignees = [JStr ''alice'', JStr ''bob''],
           totalReward = 5000, completedReward = 5000,
           rewards = Some \<lparr> total = 5000, completed = 5000, pending = 0 \<rparr> \<rparr>"
  by (simp add: sprintReport_def new_report_def initial_total_def finish_def processTask_def
      route_def track_rewards_def set_add_def mk_task_def scenario_tasks_def parseInt_or_zero_def
      parseInt_JNum)

subsection \<open>Reward totals\<close>




subsection \<open>Pending rewards\<close>



subsection \<open>Buckets\<close>



subsection \<open>The two input shapes\<close>

text \<open>
  Claim C4. A bare array and an envelope are both accepted. For a bare array the count is
  the array's length; an envelope with the same item list gives the same report but for
  the count, which is the envelope's: its \<open>total\<close> when that is truthy, and the length of
  its item list otherwise. An envelope with no item list gives the empty report.
\<close>

theorem both_shapes_accepted:
  "\<exists>rep. sprintReport board (BareArray ts) = Inr rep \<and>
         totalTasks rep = JNum (int (length ts)) \<and>
         sprintReport board (Envelope tot (Some ts)) =
           Inr (rep\<lparr>totalTasks := if truthy tot then tot else JNum (int (length ts))\<rparr>) \<and>
         sprintReport board (Envelope tot None) =
           Inr (finish (new_report board (Envelope tot None))) \<and>
         todo rep = filter (\<lambda>t. stage t = JStr ''todo'') ts \<and>
         doing rep = filter (\<lambda>t. stage t = JStr ''doing'') ts \<and>
         done_tasks rep = filter (\<lambda>t. stage t = JStr ''done'') ts"
proof -
  let ?E = "Envelope tot (Some ts)"
  have "process_all (new_report board ?E) ts =
        (process_all (new_report board (BareArray ts)) ts)\<lparr>totalTasks := initial_total ?E\<rparr>"
    by (subst new_report_totalTasks [of board ?E "BareArray ts"])
       (rule process_all_totalTasks_update)
  then show ?thesis
    by (simp add: sprintReport_def finish_def envelope_total pa_todo pa_doing pa_done)
       (simp add: new_report_def)
qed

theorem both_shapes_accepted_witness:
  "\<exists>rep. sprintReport () (BareArray four_tasks) = Inr rep \<and> totalTasks rep = JNum 4 \<and>
         sprintReport () (Envelope (JNum 7) (Some four_tasks)) = Inr (rep\<lparr>totalTasks := JNum 7\<rparr>)"
  using both_shapes_accepted [of "()" four_tasks "JNum 7"]
  by (auto simp: four_tasks_def)

subsection \<open>Assignees\<close>

text \<open>
  Claim C9. The \<open>assignees\<close> of the report are the truthy assignees of the tasks, each
  once, in order of first occurrence. The empty string is never among them, and a string
  is among them exactly when it is not empty and some task has it as assignee.
\<close>

theorem assignees_in_first_seen_order:
  assumes "tasks \<noteq> NoBody"
  shows "\<exists>rep. sprintReport board tasks = Inr rep \<and>
           assignees rep = first_seen (filter truthy (map assignee (tasks_of tasks))) \<and>
           distinct (assignees rep) \<and>
           JStr [] \<notin> set (assignees rep) \<and>
           (\<forall>s. JStr s \<in> set (assignees rep) \<longleftrightarrow>
                  s \<noteq> [] \<and> JStr s \<in> set (map assignee (tasks_of tasks)))"
  by (auto simp: sprintReport_returns [OF assms] finish_def pa_assignees new_report_def
      add_all_first_seen filter_first_seen distinct_first_seen set_first_seen)

theorem assignees_in_first_seen_order_witness:
  "BareArray four_tasks \<noteq> NoBody \<and>
   (\<exists>rep. sprintReport () (BareArray four_tasks) = Inr rep \<and>
      assignees rep = [JStr ''alice'', JStr ''bob''])"
  using assignees_in_first_seen_order [of "BareArray four_tasks" "()"]
  by (auto simp: four_tasks_def mk_task_def tasks_of_def)

subsection \<open>An envelope whose count is falsy\<close>

text \<open>
  Claim C10. When the \<open>total\<close> of an envelope is falsy (0, absent, \<^verbatim>\<open>null\<close>) and the
  item list is present, the count of the report is the length of the item list, so it is
  not 0 when the list is not empty.
\<close>

theorem falsy_total_gives_item_count:
  assumes "\<not> truthy tot"
  shows "\<exists>rep. sprintReport board (Envelope tot (Some ts)) = Inr rep \<and>
           totalTasks rep = JNum (int (length ts)) \<and>
           (ts \<noteq> [] \<longrightarrow> truthy (totalTasks rep) \<and> totalTasks rep \<noteq> JNum 0)"
  using assms
  by (simp add: sprintReport_returns finish_def final_total_def initial_total_def js_or_def)

theorem falsy_total_gives_item_count_witness:
  "\<not> truthy (JNum 0) \<and>
   (\<exists>rep. sprintReport () (Envelope (JNum 0) (Some four_tasks)) = Inr rep \<and>
      totalTasks rep = JNum 4)"
  using falsy_total_gives_item_count [of "JNum 0" "()" four_tasks]
  by (auto simp: four_tasks_def)

section \<open>The client and the skill\<close>

lemmas config_defs = token_config_def user_config_def both_config_def admin_key_config_def
  empty_config_def

lemma default_arg_undefined: "default_arg v JUndefined = v"
  by (simp add: default_arg_def)

lemma ensure_client_Inr:
  "ensure_client sk = Inr (c, sk') \<Longrightarrow> client sk' = Some c \<and> ensure_client sk' = Inr (c, sk')"
  by (auto simp: ensure_client_def initialize_def split: option.splits if_splits)

lemma skill_call_sent:
  "ensure_client sk = Inr (c, sk') \<Longrightarrow>
     fst (snd (skill_call net sk opn e)) = sk' \<and>
     sent (snd (snd (skill_call net sk opn e))) = sent e @ [request_of c opn]"
  by (auto simp: skill_call_def api_call_def send_def split: prod.splits sum.splits)

lemma skill_call_no_client:
  "ensure_client sk = Inl err \<Longrightarrow> skill_call net sk opn e = (Inl err, sk, e)"
  by (simp add: skill_call_def)

lemma createTask_sent:
  "ensure_client sk = Inr (c, sk') \<Longrightarrow>
     fst (snd (createTask net sk sid d a r n e)) = sk' \<and>
     length (sent (snd (snd (createTask net sk sid d a r n e)))) = Suc (length (sent e))"
  by (simp add: createTask_def skill_call_sent)

lemma import_issue_sent:
  assumes "ensure_client sk = Inr (c, sk')"
  shows "\<exists>r e'. import_issue net sid dr i sk e = (r, sk', e') \<and>
                 length (sent e') = Suc (length (sent e))"
proof -
  define call where "call = createTask net sk sid (issue_description i)
      (js_or (issue_assignee i) (JStr [])) dr
      (JStr (''Imported from GitHub: '' @ to_string (issue_url i))) e"
  obtain r sk1 e1 where c: "call = (r, sk1, e1)" by (cases call) auto
  have "fst (snd call) = sk'" "length (sent (snd (snd call))) = Suc (length (sent e))"
    unfolding call_def using createTask_sent [OF assms] by blast+
  then have "sk1 = sk'" "length (sent e1) = Suc (length (sent e))"
    by (simp_all add: c)
  moreover have "import_issue net sid dr i sk e =
      (case call of (Inr t, sk', e') \<Rightarrow> (Imported t i, sk', e')
                  | (Inl err, sk', e') \<Rightarrow> (NotImported (message err) i, sk', e'))"
    by (simp add: import_issue_def call_def)
  ultimately show ?thesis by (cases r) (simp_all add: c)
qed

subsection \<open>The calling context\<close>

text \<open>
  Claim C5. For every configuration and every operation of the client, the request carries
  an \<open>Authorization\<close> header exactly when the access token is truthy, and then it is
  \<open>Bearer\<close> followed by the token; it carries a \<open>usr\<close> query parameter exactly when
  \<open>user_id\<close> or \<open>usr\<close> is truthy, and then it is \<open>user_id\<close> when that is truthy and
  \<open>usr\<close> otherwise. The two are independent of each other.
\<close>

theorem calling_context_of_config:
  "(''Authorization'' \<in> dom (req_headers (request_of (LnbitsScrumClient cfg) opn)) \<longleftrightarrow>
      truthy (access_token cfg)) \<and>
   (truthy (access_token cfg) \<longrightarrow>
      req_headers (request_of (LnbitsScrumClient cfg) opn) ''Authorization'' =
        Some (''Bearer '' @ to_string (access_token cfg))) \<and>
   (''usr'' \<in> dom (params (request_of (LnbitsScrumClient cfg) opn)) \<longleftrightarrow>
      truthy (user_id cfg) \<or> truthy (usr cfg)) \<and>
   (truthy (user_id cfg) \<longrightarrow>
      params (request_of (LnbitsScrumClient cfg) opn) ''usr'' = Some (user_id cfg)) \<and>
   (\<not> truthy (user_id cfg) \<and> truthy (usr cfg) \<longrightarrow>
      params (request_of (LnbitsScrumClient cfg) opn) ''usr'' = Some (usr cfg))"
  by (cases opn)
     (simp_all add: api_request_def buildParams_def LnbitsScrumClient_def js_or_def Let_def dom_def)

theorem calling_context_of_config_witness:
  "truthy (access_token token_config) \<and>
   req_headers (request_of (LnbitsScrumClient token_config) (GetTasksForScrum (JStr ''b1'')))
     ''Authorization'' = Some ''Bearer tok'' \<and>
   ''usr'' \<notin> dom (params (request_of (LnbitsScrumClient token_config) (GetTasksForScrum (JStr ''b1'')))) \<and>
   truthy (usr user_config) \<and>
   params (request_of (LnbitsScrumClient user_config) (GetTasksForScrum (JStr ''b1''))) ''usr'' =
     Some (JStr ''u1'') \<and>
   ''Authorization'' \<notin>
     dom (req_headers (request_of (LnbitsScrumClient user_config) (GetTasksForScrum (JStr ''b1'')))) \<and>
   truthy (user_id both_config) \<and>
   req_headers (request_of (LnbitsScrumClient both_config) (GetTasksForScrum (JStr ''b1'')))
     ''Authorization'' = Some ''Bearer tok'' \<and>
   params (request_of (LnbitsScrumClient both_config) (GetTasksForScrum (JStr ''b1''))) ''usr'' =
     Some (JStr ''u1'')"
  using calling_context_of_config [of token_config "GetTasksForScrum (JStr ''b1'')"]
    calling_context_of_config [of user_config "GetTasksForScrum (JStr ''b1'')"]
    calling_context_of_config [of both_config "GetTasksForScrum (JStr ''b1'')"]
  by (simp add: config_defs)

subsection \<open>The authentication guard\<close>

text \<open>
  The first operation of a skill, under the guard of \<^verbatim>\<open>initialize\<close>: with none of
  \<open>access_token\<close>, \<open>admin_key\<close>, \<open>user_id\<close> and \<open>usr\<close> truthy it fails with the
  configuration error and nothing is sent; with any of the four truthy it raises no
  configuration error and sends exactly its request.
\<close>

lemma guard_of_first_operation:
  assumes "client sk = None"
  shows "(\<not> truthy (access_token (config sk)) \<and> \<not> truthy (admin_key (config sk)) \<and>
          \<not> truthy (user_id (config sk)) \<and> \<not> truthy (usr (config sk)) \<longrightarrow>
            skill_call net sk opn e = (Inl (ConfigurationError auth_error_message), sk, e)) \<and>
         (truthy (access_token (config sk)) \<or> truthy (admin_key (config sk)) \<or>
          truthy (user_id (config sk)) \<or> truthy (usr (config sk)) \<longrightarrow>
            (\<forall>m. fst (skill_call net sk opn e) \<noteq> Inl (ConfigurationError m)) \<and>
            sent (snd (snd (skill_call net sk opn e))) =
              sent e @ [request_of (LnbitsScrumClient (config sk)) opn])"
  using assms
  by (auto simp: skill_call_def ensure_client_def initialize_def api_call_def send_def
      split: prod.splits sum.splits)

lemma guard_of_first_operation_examples:
  "client (LnbitsScrumSkill Missing) = None \<and>
   \<not> truthy (access_token (config (LnbitsScrumSkill Missing))) \<and>
   skill_call always_ok (LnbitsScrumSkill Missing) ListScrumBoards (start ()) =
     (Inl (ConfigurationError auth_error_message), LnbitsScrumSkill Missing, start ()) \<and>
   client (LnbitsScrumSkill (Parsed user_config)) = None \<and>
   truthy (usr (config (LnbitsScrumSkill (Parsed user_config)))) \<and>
   sent (snd (snd (skill_call always_ok (LnbitsScrumSkill (Parsed user_config)) ListScrumBoards
     (start ())))) = [request_of (LnbitsScrumClient user_config) ListScrumBoards]"
  using guard_of_first_operation [of "LnbitsScrumSkill Missing" always_ok ListScrumBoards "start ()"]
    guard_of_first_operation [of "LnbitsScrumSkill (Parsed user_config)" always_ok ListScrumBoards "start ()"]
  by (simp add: LnbitsScrumSkill_def loadConfig_def config_defs start_def)

text \<open>Report generation starts with a fetch, so it is under the same guard; once both
  fetches have succeeded it returns the aggregation of what they returned.\<close>

lemma generateSprintReport_without_auth:
  assumes "client sk = None"
    and "\<not> truthy (access_token (config sk))" and "\<not> truthy (admin_key (config sk))"
    and "\<not> truthy (user_id (config sk))" and "\<not> truthy (usr (config sk))"
  shows "generateSprintReport net shape sk scrumId e =
           (Inl (ConfigurationError auth_error_message), sk, e)"
  using assms guard_of_first_operation [of sk net "GetScrumBoard scrumId" e]
  by (simp add: generateSprintReport_def)

lemma generateSprintReport_aggregates:
  assumes "skill_call net sk (GetScrumBoard scrumId) e = (Inr board, sk1, e1)"
    and "skill_call net sk1 (GetTasksForScrum scrumId) e1 = (Inr tasks, sk2, e2)"
  shows "generateSprintReport net shape sk scrumId e = (sprintReport board (shape tasks), sk2, e2)"
  using assms by (simp add: generateSprintReport_def)

text \<open>
  Claim C6 at a configuration that holds only an \<open>admin_key\<close>: neither an access token
  nor a user identifier is present, yet the first operation raises no configuration error
  and its request is sent.
\<close>

theorem admin_key_alone_passes_guard:
  "\<not> truthy (access_token admin_key_config) \<and> \<not> truthy (user_id admin_key_config) \<and>
   \<not> truthy (usr admin_key_config) \<and>
   fst (skill_call always_ok (LnbitsScrumSkill (Parsed admin_key_config))
          (GetScrumBoard (JStr ''b1'')) (start ())) = Inr JNull \<and>
   length (sent (snd (snd (skill_call always_ok (LnbitsScrumSkill (Parsed admin_key_config))
          (GetScrumBoard (JStr ''b1'')) (start ()))))) = 1"
  by (simp add: skill_call_def ensure_client_def initialize_def api_call_def send_def
      always_ok_def LnbitsScrumSkill_def loadConfig_def config_defs start_def)

text \<open>The request that is then sent carries no credential at all.\<close>

lemma admin_key_request_unauthenticated:
  "''Authorization'' \<notin>
     dom (req_headers (request_of (LnbitsScrumClient admin_key_config) (GetScrumBoard (JStr ''b1'')))) \<and>
   ''usr'' \<notin> dom (params (request_of (LnbitsScrumClient admin_key_config) (GetScrumBoard (JStr ''b1''))))"
  by (simp add: api_request_def buildParams_def LnbitsScrumClient_def js_or_def config_defs)

subsection \<open>The reward field of a new task\<close>

text \<open>
  Claim C7. The payload of task creation has a \<open>reward\<close> field exactly when the reward
  argument is not \<^verbatim>\<open>undefined\<close>, and the field is then the argument itself: an explicit
  0 and an explicit \<^verbatim>\<open>null\<close> are sent as they are, and an omitted reward leaves the
  field out. This is the payload of the request the client issues, also when the task is
  created through the skill.
\<close>

theorem reward_field_iff_supplied:
  "(''reward'' \<in> dom (createTask_payload sid d a r n) \<longleftrightarrow> r \<noteq> JUndefined) \<and>
   (r \<noteq> JUndefined \<longrightarrow> createTask_payload sid d a r n ''reward'' = Some r) \<and>
   createTask_payload sid d a (JNum 0) n ''reward'' = Some (JNum 0) \<and>
   createTask_payload sid d a JNull n ''reward'' = Some JNull \<and>
   createTask_payload sid d a JUndefined n ''reward'' = None \<and>
   payload (request_of c (CreateTask sid d a r n)) = Some (createTask_payload sid d a r n) \<and>
   (ensure_client sk = Inr (c, sk') \<longrightarrow>
      (\<exists>q. sent (snd (snd (createTask net sk sid d a r n e))) = sent e @ [q] \<and>
           payload_field q ''reward'' = (if r = JUndefined then None else Some r)))"
  by (auto simp: createTask_payload_def Let_def dom_def api_request_def createTask_def
        skill_call_sent payload_field_def default_arg_undefined)

theorem reward_field_iff_supplied_witness:
  "createTask_payload (JStr ''b1'') (JStr ''write docs'') JUndefined (JNum 0) JUndefined ''reward'' =
     Some (JNum 0) \<and>
   createTask_payload (JStr ''b1'') (JStr ''write docs'') JUndefined JNull JUndefined ''reward'' =
     Some JNull \<and>
   ''reward'' \<notin> dom (createTask_payload (JStr ''b1'') (JStr ''write docs'') JUndefined JUndefined
     JUndefined) \<and>
   ensure_client (LnbitsScrumSkill (Parsed token_config)) =
     Inr (LnbitsScrumClient token_config,
          (LnbitsScrumSkill (Parsed token_config))\<lparr>client := Some (LnbitsScrumClient token_config)\<rparr>) \<and>
   (\<exists>q. sent (snd (snd (createTask always_ok (LnbitsScrumSkill (Parsed token_config)) (JStr ''b1'')
             (JStr ''write docs'') JUndefined (JNum 0) JUndefined (start ())))) = [q] \<and>
        payload_field q ''reward'' = Some (JNum 0))"
proof -
  have ec: "ensure_client (LnbitsScrumSkill (Parsed token_config)) =
     Inr (LnbitsScrumClient token_config,
          (LnbitsScrumSkill (Parsed token_config))\<lparr>client := Some (LnbitsScrumClient token_config)\<rparr>)"
    by (simp add: ensure_client_def initialize_def LnbitsScrumSkill_def loadConfig_def config_defs)
  show ?thesis
    using ec
      reward_field_iff_supplied [of "JStr ''b1''" "JStr ''write docs''" JUndefined "JNum 0" JUndefined
        "LnbitsScrumClient token_config" "LnbitsScrumSkill (Parsed token_config)"
        "(LnbitsScrumSkill (Parsed token_config))\<lparr>client := Some (LnbitsScrumClient token_config)\<rparr>"
        always_ok "start ()"]
      reward_field_iff_supplied [of "JStr ''b1''" "JStr ''write docs''" JUndefined JUndefined JUndefined
        "LnbitsScrumClient token_config" "LnbitsScrumSkill (Parsed token_config)"
        "(LnbitsScrumSkill (Parsed token_config))\<lparr>client := Some (LnbitsScrumClient token_config)\<rparr>"
        always_ok "start ()"]
    by (simp add: start_def)
qed

subsection \<open>Importing issues\<close>

lemma import_loop_acc:
  "import_loop net sid dr xs acc sk e =
     (case import_loop net sid dr xs [] sk e of (rs, sk', e') \<Rightarrow> (acc @ rs, sk', e'))"
proof (induction xs arbitrary: acc sk e)
  case Nil
  then show ?case by simp
next
  case (Cons i xs)
  obtain r sk1 e1 where step: "import_issue net sid dr i sk e = (r, sk1, e1)"
    by (cases "import_issue net sid dr i sk e") auto
  show ?case
    using Cons.IH [of "acc @ [r]" sk1 e1] Cons.IH [of "[r]" sk1 e1]
    by (simp add: step split: prod.splits)
qed

lemma import_loop_append:
  "import_loop net sid dr (xs @ ys) acc sk e =
     (case import_loop net sid dr xs acc sk e of
        (r1, sk1, e1) \<Rightarrow> import_loop net sid dr ys r1 sk1 e1)"
  by (induction xs arbitrary: acc sk e) (simp_all split: prod.splits)

lemma import_loop_issues:
  "map result_issue (fst (import_loop net sid dr xs acc sk e)) = map result_issue acc @ xs"
proof (induction xs arbitrary: acc sk e)
  case Nil
  then show ?case by simp
next
  case (Cons i xs)
  obtain r sk1 e1 where step: "import_issue net sid dr i sk e = (r, sk1, e1)"
    by (cases "import_issue net sid dr i sk e") auto
  then have "result_issue r = i"
    by (auto simp: import_issue_def split: prod.splits sum.splits)
  then show ?case by (simp add: step Cons.IH)
qed

lemma import_loop_sent:
  "ensure_client sk = Inr (c, sk') \<Longrightarrow>
     length (sent (snd (snd (import_loop net sid dr xs acc sk e)))) = length (sent e) + length xs"
proof (induction xs arbitrary: acc sk e)
  case Nil
  then show ?case by simp
next
  case (Cons i xs)
  obtain r e1 where step: "import_issue net sid dr i sk e = (r, sk', e1)"
      and len: "length (sent e1) = Suc (length (sent e))"
    using import_issue_sent [OF Cons.prems] by blast
  have "ensure_client sk' = Inr (c, sk')" using ensure_client_Inr [OF Cons.prems] by simp
  from Cons.IH [OF this] show ?case by (simp add: step len)
qed

text \<open>
  Claim C8. The import returns one entry per issue, in the order of the issues. The entry
  of an issue is the outcome of its own call of task creation: the created task on
  success, the message of the error otherwise. The import of a list followed by another is
  the import of the first followed by the import of the second from where the first ended,
  whatever failed in the first; with a client at hand, one request is sent per issue.
\<close>

theorem import_gives_entry_per_issue:
  "length (fst (addGithubIssuesToSprint net sk githubIssues sid dr e)) = length githubIssues \<and>
   map result_issue (fst (addGithubIssuesToSprint net sk githubIssues sid dr e)) = githubIssues \<and>
   addGithubIssuesToSprint net sk [i] sid dr e =
     (case createTask net sk sid (issue_description i) (js_or (issue_assignee i) (JStr [])) dr
             (JStr (''Imported from GitHub: '' @ to_string (issue_url i))) e of
        (Inr t, sk1, e1) \<Rightarrow> ([Imported t i], sk1, e1)
      | (Inl err, sk1, e1) \<Rightarrow> ([NotImported (message err) i], sk1, e1)) \<and>
   addGithubIssuesToSprint net sk (before @ after) sid dr e =
     (case addGithubIssuesToSprint net sk before sid dr e of
        (r1, sk1, e1) \<Rightarrow>
          (case addGithubIssuesToSprint net sk1 after sid dr e1 of
             (r2, sk2, e2) \<Rightarrow> (r1 @ r2, sk2, e2))) \<and>
   (ensure_client sk = Inr (c, sk') \<longrightarrow>
      length (sent (snd (snd (addGithubIssuesToSprint net sk githubIssues sid dr e)))) =
        length (sent e) + length githubIssues)"
proof -
  have iss: "map result_issue (fst (addGithubIssuesToSprint net sk githubIssues sid dr e)) = githubIssues"
    using import_loop_issues [of net sid dr githubIssues "[]" sk e]
    by (simp add: addGithubIssuesToSprint_def default_arg_undefined)
  have len: "length (fst (addGithubIssuesToSprint net sk githubIssues sid dr e)) = length githubIssues"
    using arg_cong [OF iss, of length] by simp
  have one: "addGithubIssuesToSprint net sk [i] sid dr e =
     (case createTask net sk sid (issue_description i) (js_or (issue_assignee i) (JStr [])) dr
             (JStr (''Imported from GitHub: '' @ to_string (issue_url i))) e of
        (Inr t, sk1, e1) \<Rightarrow> ([Imported t i], sk1, e1)
      | (Inl err, sk1, e1) \<Rightarrow> ([NotImported (message err) i], sk1, e1))"
    by (simp add: addGithubIssuesToSprint_def default_arg_undefined import_issue_def
        split: prod.splits sum.splits)
  have app: "addGithubIssuesToSprint net sk (before @ after) sid dr e =
     (case addGithubIssuesToSprint net sk before sid dr e of
        (r1, sk1, e1) \<Rightarrow>
          (case addGithubIssuesToSprint net sk1 after sid dr e1 of
             (r2, sk2, e2) \<Rightarrow> (r1 @ r2, sk2, e2)))"
    unfolding addGithubIssuesToSprint_def import_loop_append
    by (simp split: prod.splits) (metis import_loop_acc old.prod.case)
  have snt: "ensure_client sk = Inr (c, sk') \<longrightarrow>
      length (sent (snd (snd (addGithubIssuesToSprint net sk githubIssues sid dr e)))) =
        length (sent e) + length githubIssues"
    by (simp add: addGithubIssuesToSprint_def import_loop_sent)
  from len iss one app snt show ?thesis by blast
qed

theorem import_gives_entry_per_issue_witness:
  "fst (addGithubIssuesToSprint second_fails (LnbitsScrumSkill (Parsed token_config)) three_issues
          (JStr ''b1'') JUndefined (start 0)) =
     [Imported (JNum 0) (example_issue 1),
      NotImported ''Failed to create task: boom'' (example_issue 2),
      Imported (JNum 2) (example_issue 3)] \<and>
   map success (fst (addGithubIssuesToSprint second_fails (LnbitsScrumSkill (Parsed token_config))
          three_issues (JStr ''b1'') JUndefined (start 0))) = [True, False, True] \<and>
   ensure_client (LnbitsScrumSkill (Parsed token_config)) =
     Inr (LnbitsScrumClient token_config,
          (LnbitsScrumSkill (Parsed token_config))\<lparr>client := Some (LnbitsScrumClient token_config)\<rparr>) \<and>
   length (sent (snd (snd (addGithubIssuesToSprint second_fails
          (LnbitsScrumSkill (Parsed token_config)) three_issues (JStr ''b1'') JUndefined (start 0))))) = 3"
proof -
  have ec: "ensure_client (LnbitsScrumSkill (Parsed token_config)) =
     Inr (LnbitsScrumClient token_config,
          (LnbitsScrumSkill (Parsed token_config))\<lparr>client := Some (LnbitsScrumClient token_config)\<rparr>)"
    by (simp add: ensure_client_def initialize_def LnbitsScrumSkill_def loadConfig_def config_defs)
  have ev: "fst (addGithubIssuesToSprint second_fails (LnbitsScrumSkill (Parsed token_config))
          three_issues (JStr ''b1'') JUndefined (start 0)) =
     [Imported (JNum 0) (example_issue 1),
      NotImported ''Failed to create task: boom'' (example_issue 2),
      Imported (JNum 2) (example_issue 3)]"
    by (simp add: addGithubIssuesToSprint_def three_issues_def import_issue_def createTask_def
        skill_call_def ensure_client_def initialize_def api_call_def send_def second_fails_def
        LnbitsScrumSkill_def loadConfig_def config_defs start_def default_arg_def js_or_def)
  show ?thesis
    using ec ev
      import_gives_entry_per_issue [of second_fails "LnbitsScrumSkill (Parsed token_config)" three_issues "JStr ''b1''"
        JUndefined "start 0" _ _ _ "LnbitsScrumClient token_config"
        "(LnbitsScrumSkill (Parsed token_config))\<lparr>client := Some (LnbitsScrumClient token_config)\<rparr>"]
    by (simp add: three_issues_def start_def)
qed

end
